theory Spec2Isabelle
  imports Complex_Main "HOL-Library.Sublist"
begin

section \<open>Numbers, dates and raw records\<close>

text \<open>
  The dashboard is TypeScript. A JavaScript \<open>number\<close> is modelled as an exact rational:
  the records arrive as JSON, which carries neither NaN nor an infinity, and the rounding
  error of IEEE doubles is not modelled. An optional field (\<open>field?: T\<close>, read as
  \<open>undefined\<close> when missing) is an \<open>option\<close>.
\<close>

type_synonym number = rat

text \<open>\<open>Math.round\<close> rounds to the nearest integer, a tie going up.\<close>

definition Math_round :: "number \<Rightarrow> number" where
  "Math_round x = of_int \<lfloor>x + 1 / 2\<rfloor>"

definition Math_min :: "number \<Rightarrow> number \<Rightarrow> number" where
  "Math_min a b = min a b"


text \<open>JavaScript truthiness of an optional number and of an optional string.\<close>

definition truthy_num :: "number option \<Rightarrow> bool" where
  "truthy_num x = (case x of None \<Rightarrow> False | Some v \<Rightarrow> v \<noteq> 0)"

definition truthy_str :: "string option \<Rightarrow> bool" where
  "truthy_str x = (case x of None \<Rightarrow> False | Some s \<Rightarrow> s \<noteq> [])"

text \<open>\<open>x || d\<close> on an optional number and on an optional string.\<close>

definition num_or :: "number option \<Rightarrow> number \<Rightarrow> number" where
  "num_or x d = (if truthy_num x then the x else d)"

definition str_or :: "string option \<Rightarrow> string \<Rightarrow> string" where
  "str_or x d = (if truthy_str x then the x else d)"

datatype js_error = RangeError | RpcError | RedisError

text \<open>
  \<open>new Date(t)\<close> keeps the time value \<open>TimeClip(t)\<close>: invalid (\<open>None\<close>) beyond
  8.64e15 milliseconds from the epoch, truncated to an integer otherwise.
  \<open>toISOString\<close> throws a RangeError on an invalid date. The ISO-8601 text itself is the
  built-in's; the model keeps the millisecond value that the text renders.
\<close>

datatype iso_string = ISO int

definition Date_new :: "number \<Rightarrow> int option" where
  "Date_new t =
     (if \<bar>t\<bar> > 8640000000000000 then None
      else Some (if t \<ge> 0 then \<lfloor>t\<rfloor> else \<lceil>t\<rceil>))"

definition toISOString :: "int option \<Rightarrow> js_error + iso_string" where
  "toISOString d = (case d of None \<Rightarrow> Inl RangeError | Some tv \<Rightarrow> Inr (ISO tv))"

text \<open>
  Modelled from the spec: the \<open>Pod\<close> type is declared by the gossip client library
  (xandeum-prpc), which is not part of the repository. The fields are the ones the
  code reads; all but the timestamp are guarded by the code with \<open>||\<close> or a truthiness
  test and are optional here. The fields carry the prefix \<open>pod_\<close> to keep them apart
  from the fields of \<open>PNode\<close>.
\<close>

record Pod =
  pod_pubkey :: "string option"
  pod_address :: "string option"
  pod_version :: "string option"
  pod_is_public :: "bool option"
  pod_rpc_port :: "number option"
  pod_last_seen_timestamp :: number
  pod_storage_used :: "number option"
  pod_storage_committed :: "number option"
  pod_storage_usage_percent :: "number option"
  pod_uptime :: "number option"

datatype PNodeStatus = online | offline

record PNode =
  pubkey :: string
  status :: PNodeStatus
  version :: string
  storageUsed :: number
  storageTotal :: number
  uptime :: number
  ip :: string
  lastSeen :: iso_string
  address :: "string option"
  isPublic :: "bool option"
  rpcPort :: "number option"
  storageCommitted :: "number option"
  storageUsagePercent :: "number option"
  lastSeenTimestamp :: "number option"
  ramUsed :: "number option"
  ramTotal :: "number option"

section \<open>server/utils/format.ts\<close>

text \<open>
  \<open>ONLINE_THRESHOLD_SECONDS = Number(process.env.ONLINE_THRESHOLD_SECONDS) || 300\<close>.
  The argument is the number the environment variable parses to (\<open>None\<close> when it is
  unset or not a number).
\<close>

definition ONLINE_THRESHOLD_SECONDS :: "number option \<Rightarrow> number" where
  "ONLINE_THRESHOLD_SECONDS env = num_or env 300"

text \<open>
  \<open>normalizePNode\<close>, with the environment setting and the clock reading
  \<open>Date.now()\<close> (integer milliseconds) as arguments.
\<close>

definition normalizePNode :: "number option \<Rightarrow> int \<Rightarrow> Pod \<Rightarrow> js_error + PNode" where
  "normalizePNode env nowMs pod =
     (let thresholdTime = of_int (nowMs div 1000) - ONLINE_THRESHOLD_SECONDS env;
          isOnline = (pod_last_seen_timestamp pod \<ge> thresholdTime);
          storageTotal0 =
            (if truthy_num (pod_storage_committed pod) then the (pod_storage_committed pod)
             else if truthy_num (pod_storage_used pod) \<and> truthy_num (pod_storage_usage_percent pod)
             then (if the (pod_storage_usage_percent pod) > 0 \<and> the (pod_storage_usage_percent pod) \<le> 100
                   then Math_round ((the (pod_storage_used pod) * 100) / the (pod_storage_usage_percent pod))
                   else 0)
             else 0);
          lastSeenDate = Date_new (pod_last_seen_timestamp pod * 1000)
      in case toISOString lastSeenDate of
           Inl e \<Rightarrow> Inl e
         | Inr lastSeen0 \<Rightarrow>
             (let rawUptime = num_or (pod_uptime pod) 0;
                  uptime30dNormalized =
                    (if rawUptime > 100
                     then Math_min 100 ((rawUptime / (30 * 24 * 60 * 60)) * 100)
                     else if rawUptime < 0 then 0
                     else rawUptime)
              in Inr \<lparr> pubkey = str_or (pod_pubkey pod) [],
                       status = (if isOnline then online else offline),
                       version = str_or (pod_version pod) ''unknown'',
                       storageUsed = num_or (pod_storage_used pod) 0,
                       storageTotal = storageTotal0,
                       uptime = uptime30dNormalized,
                       ip = str_or (pod_address pod) [],
                       lastSeen = lastSeen0,
                       address = pod_address pod,
                       isPublic = pod_is_public pod,
                       rpcPort = pod_rpc_port pod,
                       storageCommitted = pod_storage_committed pod,
                       storageUsagePercent = pod_storage_usage_percent pod,
                       lastSeenTimestamp = Some (pod_last_seen_timestamp pod),
                       ramUsed = None,
                       ramTotal = None \<rparr>))"





section \<open>Per-node metrics (analytics service)\<close>




section \<open>The tiered cache (server/services/redis.service.ts)\<close>

text \<open>
  A store maps a key to a value and the time (epoch milliseconds) at which the entry
  expires. Values are kept as they are: \<open>JSON.parse (JSON.stringify v)\<close> is taken to
  give \<open>v\<close> back. A result \<open>None\<close> is JavaScript's \<open>null\<close>.
\<close>

type_synonym 'v entries = "string \<rightharpoonup> ('v \<times> int)"

text \<open>
  Modelled from the spec: the in-process tier \<open>cacheService\<close> (cache.service) is
  imported by redis.service.ts but is not among the sources. The specification gives
  it entries \<open>(key, value, expiry)\<close> and a TTL enforced by an explicit check of the
  expiry timestamp on reading, with no eviction sweep.
\<close>

definition cacheService_get :: "int \<Rightarrow> 'v entries \<Rightarrow> string \<Rightarrow> 'v option" where
  "cacheService_get now c key =
     (case c key of
        None \<Rightarrow> None
      | Some (v, expiry) \<Rightarrow> if now < expiry then Some v else None)"

definition cacheService_set :: "int \<Rightarrow> 'v entries \<Rightarrow> string \<Rightarrow> 'v \<Rightarrow> int \<Rightarrow> 'v entries" where
  "cacheService_set now c key v ttlMs = c(key \<mapsto> (v, now + ttlMs))"

definition cacheService_delete :: "'v entries \<Rightarrow> string \<Rightarrow> 'v entries" where
  "cacheService_delete c key = c(key := None)"

text \<open>
  The module state of redis.service.ts: the flag \<open>redisAvailable\<close> and the client
  object, \<open>None\<close> for \<open>null\<close>. Of the client (ioredis) the model keeps whether its
  commands currently succeed; a command on a client that does not respond throws.
\<close>

datatype redis_client = RedisClient (responding: bool)

record redis_conn =
  redisAvailable :: bool
  redisClient :: "redis_client option"

definition redisClient_get :: "redis_client \<Rightarrow> int \<Rightarrow> 'v entries \<Rightarrow> string \<Rightarrow> js_error + 'v option" where
  "redisClient_get cl now c key =
     (if \<not> responding cl then Inl RedisError
      else Inr (case c key of
                  None \<Rightarrow> None
                | Some (v, expiry) \<Rightarrow> if now < expiry then Some v else None))"

definition redisClient_setex ::
  "redis_client \<Rightarrow> int \<Rightarrow> 'v entries \<Rightarrow> string \<Rightarrow> int \<Rightarrow> 'v \<Rightarrow> js_error + 'v entries" where
  "redisClient_setex cl now c key ttlSeconds v =
     (if \<not> responding cl then Inl RedisError
      else if ttlSeconds \<le> 0 then Inl RedisError
      else Inr (c(key \<mapsto> (v, now + ttlSeconds * 1000))))"

definition redisClient_del :: "redis_client \<Rightarrow> 'v entries \<Rightarrow> string \<Rightarrow> js_error + 'v entries" where
  "redisClient_del cl c key =
     (if \<not> responding cl then Inl RedisError else Inr (c(key := None)))"

definition getFromRedis :: "redis_conn \<Rightarrow> int \<Rightarrow> 'v entries \<Rightarrow> string \<Rightarrow> 'v option" where
  "getFromRedis conn now c key =
     (if \<not> redisAvailable conn \<or> redisClient conn = None then None
      else case redisClient_get (the (redisClient conn)) now c key of
             Inl e \<Rightarrow> None
           | Inr None \<Rightarrow> None
           | Inr (Some v) \<Rightarrow> Some v)"

definition setInRedis :: "redis_conn \<Rightarrow> int \<Rightarrow> 'v entries \<Rightarrow> string \<Rightarrow> 'v \<Rightarrow> int \<Rightarrow> 'v entries" where
  "setInRedis conn now c key v ttlSeconds =
     (if \<not> redisAvailable conn \<or> redisClient conn = None then c
      else case redisClient_setex (the (redisClient conn)) now c key ttlSeconds v of
             Inl e \<Rightarrow> c
           | Inr c' \<Rightarrow> c')"

text \<open>
  \<open>RedisCacheService\<close>: the two tiers of one logical cache. The constructor's key
  prefix is the first argument; \<open>truthy\<close> is JavaScript's truthiness on the cached
  type, which \<open>get\<close> applies to the value read from Redis.
\<close>

record 'v tiers =
  redisTier :: "'v entries"
  memoryTier :: "'v entries"

definition RedisCacheService_get ::
  "string \<Rightarrow> ('v \<Rightarrow> bool) \<Rightarrow> redis_conn \<Rightarrow> int \<Rightarrow> 'v tiers \<Rightarrow> string \<Rightarrow> 'v option" where
  "RedisCacheService_get keyPrefix truthy conn now st key =
     (let redisKey = keyPrefix @ key;
          redisValue = getFromRedis conn now (redisTier st) redisKey
      in case redisValue of
           Some v \<Rightarrow> if truthy v then Some v else cacheService_get now (memoryTier st) key
         | None \<Rightarrow> cacheService_get now (memoryTier st) key)"

definition RedisCacheService_set ::
  "string \<Rightarrow> redis_conn \<Rightarrow> int \<Rightarrow> 'v tiers \<Rightarrow> string \<Rightarrow> 'v \<Rightarrow> int \<Rightarrow> 'v tiers" where
  "RedisCacheService_set keyPrefix conn now st key v ttlMs =
     (let redisKey = keyPrefix @ key;
          ttlSeconds = ttlMs div 1000
      in \<lparr> redisTier = setInRedis conn now (redisTier st) redisKey v ttlSeconds,
           memoryTier = cacheService_set now (memoryTier st) key v ttlMs \<rparr>)"

definition RedisCacheService_delete ::
  "string \<Rightarrow> redis_conn \<Rightarrow> 'v tiers \<Rightarrow> string \<Rightarrow> 'v tiers" where
  "RedisCacheService_delete keyPrefix conn st key =
     (let redisKey = keyPrefix @ key;
          r = (if redisAvailable conn \<and> redisClient conn \<noteq> None
               then (case redisClient_del (the (redisClient conn)) (redisTier st) redisKey of
                       Inl e \<Rightarrow> redisTier st
                     | Inr c' \<Rightarrow> c')
               else redisTier st)
      in \<lparr> redisTier = r, memoryTier = cacheService_delete (memoryTier st) key \<rparr>)"

definition REDIS_KEY_PREFIX_NODES :: string where
  "REDIS_KEY_PREFIX_NODES = ''xandeum:nodes:''"

definition REDIS_KEY_PREFIX_STATS :: string where
  "REDIS_KEY_PREFIX_STATS = ''xandeum:stats:''"

definition REDIS_KEY_PREFIX_ANALYTICS :: string where
  "REDIS_KEY_PREFIX_ANALYTICS = ''xandeum:analytics:''"

text \<open>
  The remote tier is down when there is no client, the availability flag is off, or
  the client's commands fail.
\<close>

definition redis_down :: "redis_conn \<Rightarrow> bool" where
  "redis_down conn =
     (case redisClient conn of
        None \<Rightarrow> True
      | Some cl \<Rightarrow> \<not> redisAvailable conn \<or> \<not> responding cl)"

section \<open>Stats enrichment of a node list\<close>

text \<open>
  Of a node's cached runtime statistics the code reads the two RAM fields, either of
  which may be missing; the other fields of \<open>NodeStats\<close> are never read here.
\<close>

record NodeStats =
  ram_used :: "number option"
  ram_total :: "number option"

definition enrichNodeWithStats :: "redis_conn \<Rightarrow> int \<Rightarrow> NodeStats tiers \<Rightarrow> PNode \<Rightarrow> PNode" where
  "enrichNodeWithStats conn now stats node =
     (let cacheKey = ''node_stats_'' @ pubkey node;
          cachedStats = RedisCacheService_get REDIS_KEY_PREFIX_STATS (\<lambda>_. True) conn now stats cacheKey
      in case cachedStats of
           None \<Rightarrow> node
         | Some cs \<Rightarrow>
             if ram_used cs \<noteq> None \<and> ram_total cs \<noteq> None
             then node\<lparr> ramUsed := ram_used cs, ramTotal := ram_total cs \<rparr>
             else node)"

text \<open>\<open>enrichNodesWithCachedStats\<close>; the throttled log lines are left out.\<close>

definition enrichNodesWithCachedStats ::
  "redis_conn \<Rightarrow> int \<Rightarrow> NodeStats tiers \<Rightarrow> PNode list \<Rightarrow> PNode list" where
  "enrichNodesWithCachedStats conn now stats nodes = map (enrichNodeWithStats conn now stats) nodes"

section \<open>Discovery (server/services/pnode.service.ts)\<close>

definition SEED_IPS :: "string list" where
  "SEED_IPS =
     [''173.212.220.65'', ''161.97.97.41'', ''192.190.136.36'', ''192.190.136.38'',
      ''207.244.255.1'', ''192.190.136.28'', ''192.190.136.29'', ''173.212.203.145'']"

text \<open>
  The gossip network as the client library shows it: for each address, what
  \<open>getPods\<close> and \<open>getPodsWithStats\<close> of a client bound to that address give, an error
  (\<open>Inl\<close>, the call throws) or the pods of the response. The module's \<open>prpcClient\<close> is
  bound to the first seed address.
\<close>

record gossip =
  getPods :: "string \<Rightarrow> js_error + Pod list"
  getPodsWithStats :: "string \<Rightarrow> js_error + Pod list"

text \<open>
  What the services read and write: the clock (\<open>Date.now()\<close>, taken as one reading
  per service call), the environment's threshold, the Redis connection state, the
  gossip network, and the caches. The node, stats and raw-pods caches are kept apart by
  type; their keys never coincide in the code.
\<close>

record world =
  clock :: int
  threshold_env :: "number option"
  redisConn :: redis_conn
  gossipNet :: gossip
  nodeCache :: "PNode list tiers"
  statsCache :: "NodeStats tiers"
  analyticsPodsCache :: "Pod list tiers"

definition CACHE_KEY :: string where
  "CACHE_KEY = ''pnodes''"

definition CACHE_TTL_MS :: int where
  "CACHE_TTL_MS = 30 * 1000"

text \<open>
  The loop \<open>for (const pod of response.pods)\<close>: a record whose normalisation throws
  is skipped, and so is one whose normalised pubkey is empty.
\<close>

primrec pushNormalized :: "number option \<Rightarrow> int \<Rightarrow> PNode list \<Rightarrow> Pod list \<Rightarrow> PNode list" where
  "pushNormalized env now discoveredNodes [] = discoveredNodes"
| "pushNormalized env now discoveredNodes (pod # pods) =
     (case normalizePNode env now pod of
        Inl e \<Rightarrow> pushNormalized env now discoveredNodes pods
      | Inr normalized \<Rightarrow>
          if pubkey normalized \<noteq> []
          then pushNormalized env now (discoveredNodes @ [normalized]) pods
          else pushNormalized env now discoveredNodes pods)"

text \<open>
  The fallback loop over the seed addresses after the first, which stops as soon as
  some node has been discovered.
\<close>

primrec seedLoop :: "number option \<Rightarrow> int \<Rightarrow> gossip \<Rightarrow> PNode list \<Rightarrow> string list \<Rightarrow> PNode list" where
  "seedLoop env now g discoveredNodes [] = discoveredNodes"
| "seedLoop env now g discoveredNodes (ip0 # ips) =
     (if discoveredNodes \<noteq> [] then discoveredNodes
      else case getPods g ip0 of
             Inl e \<Rightarrow> seedLoop env now g discoveredNodes ips
           | Inr pods \<Rightarrow>
               (let discovered' = pushNormalized env now discoveredNodes pods
                in if discovered' \<noteq> [] then discovered'
                   else seedLoop env now g discovered' ips))"

text \<open>\<open>getPodsWithStats\<close> on the primary client, falling back to its \<open>getPods\<close>.\<close>

definition primaryResponse :: "gossip \<Rightarrow> js_error + Pod list" where
  "primaryResponse g =
     (case getPodsWithStats g (hd SEED_IPS) of
        Inr pods \<Rightarrow> Inr pods
      | Inl e \<Rightarrow> getPods g (hd SEED_IPS))"

definition discoverPNodesViaGossip :: "number option \<Rightarrow> int \<Rightarrow> gossip \<Rightarrow> PNode list" where
  "discoverPNodesViaGossip env now g =
     (case primaryResponse g of
        Inl e \<Rightarrow> seedLoop env now g [] (tl SEED_IPS)
      | Inr pods \<Rightarrow>
          (let discoveredNodes = pushNormalized env now [] pods
           in if discoveredNodes \<noteq> [] then discoveredNodes
              else seedLoop env now g discoveredNodes (tl SEED_IPS)))"

text \<open>The deduplication loop of \<open>getAllPNodes\<close>, with its map \<open>seen\<close>.\<close>

primrec dedupLoop :: "(string \<rightharpoonup> PNode) \<Rightarrow> PNode list \<Rightarrow> PNode list \<Rightarrow> PNode list" where
  "dedupLoop seen uniqueNodes [] = uniqueNodes"
| "dedupLoop seen uniqueNodes (node # nodes) =
     (if pubkey node = [] then dedupLoop seen uniqueNodes nodes
      else if seen (pubkey node) = None
           then dedupLoop (seen(pubkey node \<mapsto> node)) (uniqueNodes @ [node]) nodes
           else dedupLoop seen uniqueNodes nodes)"

definition getAllPNodes :: "world \<Rightarrow> PNode list \<times> world" where
  "getAllPNodes w =
     (case RedisCacheService_get REDIS_KEY_PREFIX_NODES (\<lambda>_. True) (redisConn w) (clock w)
             (nodeCache w) CACHE_KEY of
        Some cached \<Rightarrow> (enrichNodesWithCachedStats (redisConn w) (clock w) (statsCache w) cached, w)
      | None \<Rightarrow>
          (let nodes = discoverPNodesViaGossip (threshold_env w) (clock w) (gossipNet w);
               uniqueNodes = dedupLoop Map.empty [] nodes;
               w' = w\<lparr> nodeCache := RedisCacheService_set REDIS_KEY_PREFIX_NODES (redisConn w) (clock w)
                                      (nodeCache w) CACHE_KEY uniqueNodes CACHE_TTL_MS \<rparr>;
               enrichedNodes = enrichNodesWithCachedStats (redisConn w') (clock w') (statsCache w') uniqueNodes
           in (enrichedNodes, w')))"


text \<open>
  \<open>getRawPodsForAnalytics\<close>. The \<open>getPods\<close> call of the catch block is not itself
  guarded, so its error leaves the function.
\<close>

definition getRawPodsForAnalytics :: "world \<Rightarrow> js_error + (Pod list \<times> world)" where
  "getRawPodsForAnalytics w =
     (let CACHE_KEY_ANALYTICS = ''pods_raw_analytics'';
          CACHE_TTL_MS_ANALYTICS = 60 * 1000
      in case RedisCacheService_get REDIS_KEY_PREFIX_ANALYTICS (\<lambda>_. True) (redisConn w) (clock w)
                (analyticsPodsCache w) CACHE_KEY_ANALYTICS of
           Some cached \<Rightarrow> Inr (cached, w)
         | None \<Rightarrow>
             (case getPodsWithStats (gossipNet w) (hd SEED_IPS) of
                Inr pods \<Rightarrow>
                  Inr (pods, w\<lparr> analyticsPodsCache :=
                                   RedisCacheService_set REDIS_KEY_PREFIX_ANALYTICS (redisConn w) (clock w)
                                     (analyticsPodsCache w) CACHE_KEY_ANALYTICS pods CACHE_TTL_MS_ANALYTICS \<rparr>)
              | Inl e \<Rightarrow>
                  (case getPods (gossipNet w) (hd SEED_IPS) of
                     Inl e' \<Rightarrow> Inl e'
                   | Inr pods \<Rightarrow>
                       Inr (pods, w\<lparr> analyticsPodsCache :=
                                        RedisCacheService_set REDIS_KEY_PREFIX_ANALYTICS (redisConn w) (clock w)
                                          (analyticsPodsCache w) CACHE_KEY_ANALYTICS pods
                                          CACHE_TTL_MS_ANALYTICS \<rparr>))))"

section \<open>The analytics summary\<close>

datatype NetworkHealth = healthy | degraded | unstable

definition calculateNetworkHealth :: "number \<Rightarrow> NetworkHealth" where
  "calculateNetworkHealth onlinePercentage =
     (if onlinePercentage \<ge> 95 then healthy
      else if onlinePercentage \<ge> 85 then degraded
      else unstable)"

record AnalyticsSummary =
  totalPNodes :: nat
  onlinePNodes :: nat
  onlinePercentage :: number
  totalPods :: nat
  activePods :: nat
  averageUptime :: number
  totalStorageUsed :: number
  totalStorageCapacity :: number
  totalStorageUsedTB :: number
  totalStorageCapacityTB :: number
  networkHealth :: NetworkHealth
  consensusVersion :: string

text \<open>
  The version counts are a JavaScript \<open>Map\<close>, which iterates in insertion order: an
  association list to which a new version is appended.
\<close>

primrec bumpVersion :: "(string \<times> nat) list \<Rightarrow> string \<Rightarrow> (string \<times> nat) list" where
  "bumpVersion [] v = [(v, 1)]"
| "bumpVersion (e # es) v =
     (if fst e = v then (fst e, snd e + 1) # es else e # bumpVersion es v)"

primrec countVersions :: "(string \<times> nat) list \<Rightarrow> PNode list \<Rightarrow> (string \<times> nat) list" where
  "countVersions versionMap [] = versionMap"
| "countVersions versionMap (node # nodes) =
     countVersions (bumpVersion versionMap (if version node \<noteq> [] then version node else ''unknown'')) nodes"

primrec pickConsensus :: "string \<Rightarrow> nat \<Rightarrow> (string \<times> nat) list \<Rightarrow> string" where
  "pickConsensus consensus maxCount [] = consensus"
| "pickConsensus consensus maxCount (e # es) =
     (if snd e > maxCount then pickConsensus (fst e) (snd e) es
      else pickConsensus consensus maxCount es)"

definition summarize :: "number option \<Rightarrow> int \<Rightarrow> PNode list \<Rightarrow> Pod list \<Rightarrow> AnalyticsSummary" where
  "summarize env now nodes rawPods =
     (let thresholdTime = of_int (now div 1000) - ONLINE_THRESHOLD_SECONDS env;
          activePods0 = length (filter (\<lambda>pod. pod_last_seen_timestamp pod \<ge> thresholdTime) rawPods);
          totalPods0 = length rawPods;
          totalPNodes0 = length nodes;
          onlineNodes = filter (\<lambda>n. status n = online) nodes;
          onlinePNodes0 = length onlineNodes;
          onlinePercentage0 =
            (if totalPNodes0 > 0
             then Math_round ((of_nat onlinePNodes0 / of_nat totalPNodes0) * 100 * 100) / 100
             else 0);
          uptimes = filter (\<lambda>u. u > 0) (map uptime onlineNodes);
          averageUptime0 =
            (if length uptimes > 0
             then Math_round ((foldl (\<lambda>sum u. sum + u) 0 uptimes / of_nat (length uptimes)) * 100) / 100
             else 0);
          totalStorageUsed0 = foldl (\<lambda>sum n. sum + storageUsed n) 0 nodes;
          totalStorageCapacity0 =
            foldl (\<lambda>sum pod. if truthy_num (pod_storage_committed pod) \<and> the (pod_storage_committed pod) > 0
                              then sum + the (pod_storage_committed pod) else sum) 0 rawPods;
          versionMap = countVersions [] nodes;
          consensusVersion0 = pickConsensus ''unknown'' 0 versionMap
      in \<lparr> totalPNodes = totalPNodes0,
           onlinePNodes = onlinePNodes0,
           onlinePercentage = onlinePercentage0,
           totalPods = totalPods0,
           activePods = activePods0,
           averageUptime = averageUptime0,
           totalStorageUsed = totalStorageUsed0,
           totalStorageCapacity = totalStorageCapacity0,
           totalStorageUsedTB = totalStorageUsed0 / 1024 ^ 4,
           totalStorageCapacityTB = totalStorageCapacity0 / 1024 ^ 4,
           networkHealth = calculateNetworkHealth onlinePercentage0,
           consensusVersion = consensusVersion0 \<rparr>)"

definition getAnalyticsSummary :: "world \<Rightarrow> js_error + (AnalyticsSummary \<times> world)" where
  "getAnalyticsSummary w =
     (let (nodes, w1) = getAllPNodes w
      in case getRawPodsForAnalytics w1 of
           Inl e \<Rightarrow> Inl e
         | Inr (rawPods, w2) \<Rightarrow> Inr (summarize (threshold_env w2) (clock w2) nodes rawPods, w2))"

section \<open>Sample worlds\<close>

definition no_redis :: redis_conn where
  "no_redis = \<lparr> redisAvailable = False, redisClient = None \<rparr>"

definition empty_tiers :: "'v tiers" where
  "empty_tiers = \<lparr> redisTier = Map.empty, memoryTier = Map.empty \<rparr>"

text \<open>Every gossip call fails, on the primary address and on every seed.\<close>

definition all_down :: gossip where
  "all_down = \<lparr> getPods = (\<lambda>ip. Inl RpcError), getPodsWithStats = (\<lambda>ip. Inl RpcError) \<rparr>"

definition cold_world :: "gossip \<Rightarrow> world" where
  "cold_world g =
     \<lparr> clock = 1700000000000, threshold_env = None, redisConn = no_redis, gossipNet = g,
       nodeCache = empty_tiers, statsCache = empty_tiers, analyticsPodsCache = empty_tiers \<rparr>"



section \<open>Deduplicated lists and the invariant of the node cache\<close>

text \<open>
  A node list is deduplicated when no pubkey occurs twice and none is empty. The node
  cache is in order when whatever either tier holds under the key of \<open>getAllPNodes\<close>
  is deduplicated; only \<open>getAllPNodes\<close> writes that key.
\<close>

definition deduped :: "PNode list \<Rightarrow> bool" where
  "deduped ns = (distinct (map pubkey ns) \<and> [] \<notin> set (map pubkey ns))"


section \<open>The stats-enrichment job (stats-enrichment.service.ts)\<close>

text \<open>
  \<open>preFetchAllNodeStats\<close> is an async function guarded by the module variable
  \<open>isRunning\<close>. JavaScript runs an invocation without interruption up to its next
  \<open>await\<close>, so the job is a transition system: an event is either a call of the
  function or the settling of the promise that a suspended invocation awaits. A
  suspended invocation is at one of three awaits: \<open>getAllPNodes()\<close>, the
  \<open>Promise.allSettled\<close> of the batch that starts at index \<open>i\<close>, or the delay after
  that batch. The per-node work of a batch (cache lookup, RPC, cache write) is
  recorded as the list of pubkeys whose stats lookup has been started.
\<close>

definition BATCH_SIZE :: nat where
  "BATCH_SIZE = 15"

datatype invocation =
    AwaitingNodes
  | AwaitingBatch nat "PNode list"
  | AwaitingDelay nat "PNode list"
  | Finished

record job =
  isRunning :: bool
  invocations :: "invocation list"
  lookups :: "string list"

datatype event =
    Invoke
  | NodesResolved nat "PNode list"
  | NodesRejected nat
  | BatchSettled nat
  | DelayElapsed nat

text \<open>
  The body of the batch loop up to \<open>await Promise.allSettled(promises)\<close>: the slice
  \<open>onlineNodes.slice(i, i + BATCH_SIZE)\<close> is mapped to lookups, which start at once.
\<close>

definition startBatch :: "job \<Rightarrow> nat \<Rightarrow> nat \<Rightarrow> PNode list \<Rightarrow> job" where
  "startBatch s j i onlineNodes =
     s\<lparr> invocations := (invocations s)[j := AwaitingBatch i onlineNodes],
        lookups := lookups s @ map pubkey (take BATCH_SIZE (drop i onlineNodes)) \<rparr>"

text \<open>
  Leaving the function after the guard: the early return resets the flag itself, and
  the \<open>finally\<close> block resets it on every path, the \<open>catch\<close> path included.
\<close>

definition finish :: "job \<Rightarrow> nat \<Rightarrow> job" where
  "finish s j = s\<lparr> isRunning := False, invocations := (invocations s)[j := Finished] \<rparr>"

definition at_await :: "job \<Rightarrow> nat \<Rightarrow> invocation option" where
  "at_await s j = (if j < length (invocations s) then Some (invocations s ! j) else None)"

fun step :: "job \<Rightarrow> event \<Rightarrow> job" where
  "step s Invoke =
     (if isRunning s then s
      else s\<lparr> isRunning := True, invocations := invocations s @ [AwaitingNodes] \<rparr>)"
| "step s (NodesResolved j nodes) =
     (case at_await s j of
        Some AwaitingNodes \<Rightarrow>
          (let onlineNodes = filter (\<lambda>node. status node = online) nodes
           in if length onlineNodes = 0 then finish s j
              else startBatch s j 0 onlineNodes)
      | _ \<Rightarrow> s)"
| "step s (NodesRejected j) =
     (case at_await s j of
        Some AwaitingNodes \<Rightarrow> finish s j
      | _ \<Rightarrow> s)"
| "step s (BatchSettled j) =
     (case at_await s j of
        Some (AwaitingBatch i onlineNodes) \<Rightarrow>
          if i + BATCH_SIZE < length onlineNodes
          then s\<lparr> invocations := (invocations s)[j := AwaitingDelay i onlineNodes] \<rparr>
          else finish s j
      | _ \<Rightarrow> s)"
| "step s (DelayElapsed j) =
     (case at_await s j of
        Some (AwaitingDelay i onlineNodes) \<Rightarrow> startBatch s j (i + BATCH_SIZE) onlineNodes
      | _ \<Rightarrow> s)"

definition job_init :: job where
  "job_init = \<lparr> isRunning = False, invocations = [], lookups = [] \<rparr>"

definition run :: "event list \<Rightarrow> job" where
  "run evs = foldl step job_init evs"

text \<open>An invocation is in flight when it has passed the guard and has not finished.\<close>

definition in_flight :: "job \<Rightarrow> nat \<Rightarrow> bool" where
  "in_flight s j = (j < length (invocations s) \<and> invocations s ! j \<noteq> Finished)"

definition some_in_flight :: "job \<Rightarrow> bool" where
  "some_in_flight s = list_ex (\<lambda>t. t \<noteq> Finished) (invocations s)"


text \<open>The invariant of the job: at most one invocation is in flight, and the flag is set exactly then.\<close>

definition job_inv :: "job \<Rightarrow> bool" where
  "job_inv s = ((\<forall>j k. in_flight s j \<and> in_flight s k \<longrightarrow> j = k)
               \<and> (isRunning s \<longleftrightarrow> (\<exists>j. in_flight s j)))"

section \<open>The health-score formula as the specification words it\<close>








section \<open>Storage total as the specification words it, and sample records\<close>



definition far_future_pod :: Pod where
  "far_future_pod =
     \<lparr> pod_pubkey = Some ''abc'', pod_address = None, pod_version = None,
       pod_is_public = None, pod_rpc_port = None,
       pod_last_seen_timestamp = 10000000000000,
       pod_storage_used = None,
       pod_storage_committed = None,
       pod_storage_usage_percent = None,
       pod_uptime = None \<rparr>"

definition back_computed_pod :: Pod where
  "back_computed_pod =
     \<lparr> pod_pubkey = None, pod_address = None, pod_version = None,
       pod_is_public = None, pod_rpc_port = None,
       pod_last_seen_timestamp = 1699999700,
       pod_storage_used = Some 40,
       pod_storage_committed = None,
       pod_storage_usage_percent = Some 50,
       pod_uptime = Some 1296000 \<rparr>"

section \<open>Health score and per-node metrics\<close>









section \<open>The node normaliser\<close>

lemma normalizePNode_Inr:
  assumes "normalizePNode env nowMs pod = Inr n"
  shows "\<bar>pod_last_seen_timestamp pod * 1000\<bar> \<le> 8640000000000000"
    and "pubkey n = str_or (pod_pubkey pod) []"
    and "status n = (if pod_last_seen_timestamp pod \<ge> of_int (nowMs div 1000) - ONLINE_THRESHOLD_SECONDS env
                     then online else offline)"
    and "storageTotal n =
           (if truthy_num (pod_storage_committed pod) then the (pod_storage_committed pod)
             else if truthy_num (pod_storage_used pod) \<and> truthy_num (pod_storage_usage_percent pod)
             then (if the (pod_storage_usage_percent pod) > 0 \<and> the (pod_storage_usage_percent pod) \<le> 100
                   then Math_round ((the (pod_storage_used pod) * 100) / the (pod_storage_usage_percent pod))
                   else 0)
             else 0)"
    and "uptime n = (let rawUptime = num_or (pod_uptime pod) 0 in
                    (if rawUptime > 100
                     then Math_min 100 ((rawUptime / (30 * 24 * 60 * 60)) * 100)
                     else if rawUptime < 0 then 0
                     else rawUptime))"
  using assms
  by (auto simp: normalizePNode_def Let_def Date_new_def toISOString_def
      split: if_splits sum.splits option.splits)

lemma normalizePNode_total_iff:
  "(\<exists>n. normalizePNode env nowMs pod = Inr n) \<longleftrightarrow>
     \<bar>pod_last_seen_timestamp pod * 1000\<bar> \<le> 8640000000000000"
  by (auto simp: normalizePNode_def Let_def Date_new_def toISOString_def
      split: if_splits sum.splits option.splits)

lemma normalizePNode_raises:
  "\<bar>pod_last_seen_timestamp pod * 1000\<bar> > 8640000000000000 \<Longrightarrow>
    normalizePNode env nowMs pod = Inl RangeError"
  by (simp add: normalizePNode_def Let_def Date_new_def toISOString_def)

text \<open>
  Claim C4. Whenever \<open>normalizePNode\<close> returns a node, a raw uptime v > 100 is rescaled
  to min(100, v / 2592000 * 100), a value 0 \<le> v \<le> 100 is kept and a negative value gives
  0; the normalised uptime always lies in [0, 100] (a missing uptime gives 0).
\<close>
theorem uptime_normalization:
  assumes "normalizePNode env nowMs pod = Inr n"
  shows "(\<forall>v. pod_uptime pod = Some v \<longrightarrow>
            (v > 100 \<longrightarrow> uptime n = min 100 (v / 2592000 * 100))
          \<and> (0 \<le> v \<and> v \<le> 100 \<longrightarrow> uptime n = v)
          \<and> (v < 0 \<longrightarrow> uptime n = 0))
         \<and> 0 \<le> uptime n \<and> uptime n \<le> 100"
proof -
  note u = normalizePNode_Inr(5)[OF assms]
  show ?thesis
    unfolding u by (auto simp: Let_def num_or_def truthy_num_def Math_min_def split: option.splits)
qed

theorem uptime_normalization_witness:
  "normalizePNode None 1700000000000 back_computed_pod \<noteq> Inl RangeError
   \<and> map_sum id uptime (normalizePNode None 1700000000000 back_computed_pod) = Inr 50"
proof -
  obtain n where n: "normalizePNode None 1700000000000 back_computed_pod = Inr n"
    using normalizePNode_total_iff[of None 1700000000000 back_computed_pod]
    by (auto simp: back_computed_pod_def)
  have "pod_uptime back_computed_pod = Some 1296000" by (simp add: back_computed_pod_def)
  with uptime_normalization[OF n] have "uptime n = 50" by simp
  with n show ?thesis by simp
qed

text \<open>
  Claim C7. A normalised node is online exactly when now - last_seen_timestamp \<le>
  ONLINE_THRESHOLD_SECONDS, with now = floor(Date.now() / 1000) and the threshold 300
  by default: last seen at now - 300 is online, at now - 301 offline.
\<close>
theorem online_threshold:
  assumes "normalizePNode env nowMs pod = Inr n"
  shows "(status n = online \<longleftrightarrow>
            of_int (nowMs div 1000) - pod_last_seen_timestamp pod \<le> ONLINE_THRESHOLD_SECONDS env)
       \<and> ONLINE_THRESHOLD_SECONDS None = 300
       \<and> (env = None \<and> pod_last_seen_timestamp pod = of_int (nowMs div 1000) - 300 \<longrightarrow> status n = online)
       \<and> (env = None \<and> pod_last_seen_timestamp pod = of_int (nowMs div 1000) - 301 \<longrightarrow> status n = offline)"
proof -
  note s = normalizePNode_Inr(3)[OF assms]
  have d: "ONLINE_THRESHOLD_SECONDS None = 300"
    by (simp add: ONLINE_THRESHOLD_SECONDS_def num_or_def truthy_num_def)
  show ?thesis unfolding s by (auto simp: d)
qed

theorem online_threshold_witness:
  "map_sum id status (normalizePNode None 1700000000000 back_computed_pod) = Inr online
   \<and> map_sum id status
       (normalizePNode None 1700000000000 (back_computed_pod\<lparr>pod_last_seen_timestamp := 1699999699\<rparr>))
     = Inr offline"
proof -
  let ?p = "back_computed_pod\<lparr>pod_last_seen_timestamp := 1699999699\<rparr>"
  obtain n where n: "normalizePNode None 1700000000000 back_computed_pod = Inr n"
    using normalizePNode_total_iff[of None 1700000000000 back_computed_pod]
    by (auto simp: back_computed_pod_def)
  obtain m where m: "normalizePNode None 1700000000000 ?p = Inr m"
    using normalizePNode_total_iff[of None 1700000000000 ?p]
    by (auto simp: back_computed_pod_def)
  have "status n = online"
    using online_threshold[OF n] by (simp add: back_computed_pod_def)
  moreover have "status m = offline"
    using online_threshold[OF m] by (simp add: back_computed_pod_def)
  ultimately show ?thesis using n m by simp
qed




text \<open>
  Claim C5, as stated, fails on a record whose timestamp is beyond the range of a
  JavaScript date: \<open>toISOString\<close> throws a RangeError and no node is returned.
\<close>
theorem normalize_total_counterexample:
  "normalizePNode None 1700000000000 far_future_pod = Inl RangeError"
  by (simp add: normalizePNode_def far_future_pod_def Date_new_def toISOString_def Let_def)

text \<open>
  Claim C5, amended. \<open>normalizePNode\<close> returns a node exactly when
  last_seen_timestamp * 1000 lies within 8.64e15 milliseconds of the epoch, and raises
  a RangeError otherwise; a returned node carries the record's pubkey, the empty string
  when the pubkey is empty or missing.
\<close>

theorem normalize_total_in_date_range:
  "((\<exists>n. normalizePNode env nowMs pod = Inr n) \<longleftrightarrow>
       \<bar>pod_last_seen_timestamp pod * 1000\<bar> \<le> 8640000000000000)
   \<and> (\<bar>pod_last_seen_timestamp pod * 1000\<bar> > 8640000000000000 \<longrightarrow>
        normalizePNode env nowMs pod = Inl RangeError)
   \<and> (\<forall>n. normalizePNode env nowMs pod = Inr n \<longrightarrow>
        (pod_pubkey pod = None \<or> pod_pubkey pod = Some [] \<longrightarrow> pubkey n = [])
      \<and> (\<forall>k. pod_pubkey pod = Some k \<longrightarrow> pubkey n = k))"
  using normalizePNode_total_iff[of env nowMs pod] normalizePNode_raises[of pod env nowMs]
    normalizePNode_Inr(2)[of env nowMs pod]
  by (auto simp: str_or_def truthy_str_def)

theorem normalize_total_in_date_range_witness:
  "\<bar>pod_last_seen_timestamp back_computed_pod * 1000\<bar> \<le> 8640000000000000
   \<and> pod_pubkey back_computed_pod = None
   \<and> map_sum id pubkey (normalizePNode None 1700000000000 back_computed_pod) = Inr []"
proof -
  have r: "\<bar>pod_last_seen_timestamp back_computed_pod * 1000\<bar> \<le> 8640000000000000"
    and k: "pod_pubkey back_computed_pod = None"
    by (simp_all add: back_computed_pod_def)
  from normalize_total_in_date_range[of None 1700000000000 back_computed_pod] r
  obtain n where n: "normalizePNode None 1700000000000 back_computed_pod = Inr n" by blast
  with normalize_total_in_date_range[of None 1700000000000 back_computed_pod] k
  have "pubkey n = []" by blast
  with r k n show ?thesis by simp
qed

section \<open>Cache fallback\<close>

lemma getFromRedis_down: "redis_down conn \<Longrightarrow> getFromRedis conn now c key = None"
  by (auto simp: redis_down_def getFromRedis_def redisClient_get_def split: option.splits)

lemma setInRedis_down: "redis_down conn \<Longrightarrow> setInRedis conn now c key v ttl = c"
  by (auto simp: redis_down_def setInRedis_def redisClient_setex_def split: option.splits)

text \<open>
  Claim C8. When the remote tier is down, at the write and at the read, \<open>set\<close> followed
  by \<open>get\<close> of the same key before the TTL has run out returns the written value from
  the in-process tier, for every key and value; the remote tier is left unchanged.
  Neither operation can raise: every client command sits inside a try/catch, so the
  operations return plain values.
\<close>

theorem cache_fallback_set_get:
  assumes "redis_down conn" and "redis_down conn'" and "now' < now + ttlMs"
  shows "RedisCacheService_get keyPrefix truthy conn' now'
           (RedisCacheService_set keyPrefix conn now st key v ttlMs) key = Some v
       \<and> redisTier (RedisCacheService_set keyPrefix conn now st key v ttlMs) = redisTier st"
  using assms
  by (simp add: RedisCacheService_get_def RedisCacheService_set_def Let_def
      getFromRedis_down setInRedis_down cacheService_get_def cacheService_set_def)

theorem cache_fallback_set_get_witness:
  "redis_down \<lparr>redisAvailable = True, redisClient = Some (RedisClient False)\<rparr>
   \<and> redis_down \<lparr>redisAvailable = False, redisClient = None\<rparr>
   \<and> (1005::int) < 1000 + 30000
   \<and> RedisCacheService_get REDIS_KEY_PREFIX_NODES (\<lambda>v. v \<noteq> (0::nat))
        \<lparr>redisAvailable = False, redisClient = None\<rparr> 1005
        (RedisCacheService_set REDIS_KEY_PREFIX_NODES
           \<lparr>redisAvailable = True, redisClient = Some (RedisClient False)\<rparr> 1000
           \<lparr>redisTier = Map.empty, memoryTier = Map.empty\<rparr> ''pnodes'' 7 30000) ''pnodes'' = Some 7"
proof -
  have a: "redis_down \<lparr>redisAvailable = True, redisClient = Some (RedisClient False)\<rparr>"
    and b: "redis_down \<lparr>redisAvailable = False, redisClient = None\<rparr>"
    and c: "(1005::int) < 1000 + 30000"
    by (simp_all add: redis_down_def)
  note r = cache_fallback_set_get[OF a b c, where keyPrefix = REDIS_KEY_PREFIX_NODES
      and truthy = "\<lambda>v. v \<noteq> (0::nat)"
      and st = "\<lparr>redisTier = Map.empty, memoryTier = Map.empty\<rparr>"
      and key = "''pnodes''" and v = 7]
  from r a b c show ?thesis by simp
qed

section \<open>Discovery and deduplication\<close>






lemma pubkey_enrich [simp]: "pubkey (enrichNodeWithStats c now st n) = pubkey n"
  by (simp add: enrichNodeWithStats_def Let_def split: option.splits)

lemma map_pubkey_enrich [simp]:
  "map pubkey (enrichNodesWithCachedStats c now st ns) = map pubkey ns"
  by (simp add: enrichNodesWithCachedStats_def)

lemma deduped_enrich [simp]:
  "deduped (enrichNodesWithCachedStats c now st ns) = deduped ns"
  by (simp add: deduped_def)






lemma getAllPNodes_miss:
  assumes "RedisCacheService_get REDIS_KEY_PREFIX_NODES (\<lambda>_. True) (redisConn w) (clock w) (nodeCache w) CACHE_KEY = None"
  shows "fst (getAllPNodes w) =
           enrichNodesWithCachedStats (redisConn w) (clock w) (statsCache w)
             (dedupLoop Map.empty [] (discoverPNodesViaGossip (threshold_env w) (clock w) (gossipNet w)))"
    and "nodeCache (snd (getAllPNodes w)) =
           RedisCacheService_set REDIS_KEY_PREFIX_NODES (redisConn w) (clock w) (nodeCache w) CACHE_KEY
             (dedupLoop Map.empty [] (discoverPNodesViaGossip (threshold_env w) (clock w) (gossipNet w)))
             CACHE_TTL_MS"
  using assms by (simp_all add: getAllPNodes_def Let_def)








section \<open>Total upstream failure\<close>

lemma seedLoop_all_fail:
  assumes "\<forall>ip \<in> set ips. \<exists>e. getPods g ip = Inl e"
  shows "seedLoop env now g [] ips = []"
  using assms by (induction ips) auto

lemma getAllPNodes_all_fail:
  assumes "RedisCacheService_get REDIS_KEY_PREFIX_NODES (\<lambda>_. True) (redisConn w) (clock w) (nodeCache w) CACHE_KEY = None"
    and "\<forall>ip \<in> set SEED_IPS. \<exists>e. getPods (gossipNet w) ip = Inl e"
    and "getPodsWithStats (gossipNet w) (hd SEED_IPS) = Inl e0"
  shows "fst (getAllPNodes w) = []"
proof -
  have "hd SEED_IPS \<in> set SEED_IPS" by (simp add: SEED_IPS_def)
  with assms(2) obtain e where "getPods (gossipNet w) (hd SEED_IPS) = Inl e" by blast
  with assms(3) have p: "primaryResponse (gossipNet w) = Inl e" by (simp add: primaryResponse_def)
  have "set (tl SEED_IPS) \<subseteq> set SEED_IPS" by (simp add: SEED_IPS_def)
  with assms(2) have "seedLoop (threshold_env w) (clock w) (gossipNet w) [] (tl SEED_IPS) = []"
    by (intro seedLoop_all_fail) blast
  with p have "discoverPNodesViaGossip (threshold_env w) (clock w) (gossipNet w) = []"
    by (simp add: discoverPNodesViaGossip_def)
  then show ?thesis using getAllPNodes_miss(1)[OF assms(1)]
    by (simp add: enrichNodesWithCachedStats_def)
qed

lemma getAnalyticsSummary_rejects:
  assumes "RedisCacheService_get REDIS_KEY_PREFIX_ANALYTICS (\<lambda>_. True) (redisConn w) (clock w)
             (analyticsPodsCache w) ''pods_raw_analytics'' = None"
    and "getPodsWithStats (gossipNet w) (hd SEED_IPS) = Inl e0"
    and "getPods (gossipNet w) (hd SEED_IPS) = Inl e1"
  shows "getAnalyticsSummary w = Inl e1"
proof -
  obtain nodes w1 where g: "getAllPNodes w = (nodes, w1)" by (cases "getAllPNodes w")
  have same: "redisConn w1 = redisConn w \<and> clock w1 = clock w \<and> gossipNet w1 = gossipNet w \<and> analyticsPodsCache w1 = analyticsPodsCache w"
    using g by (auto simp: getAllPNodes_def Let_def split: option.splits)
  have "getRawPodsForAnalytics w1 = Inl e1"
    using assms same by (simp add: getRawPodsForAnalytics_def Let_def)
  then show ?thesis using g by (simp add: getAnalyticsSummary_def)
qed

text \<open>
  Claim C2. With the primary endpoint and every seed failing and the caches cold,
  \<open>getAllPNodes\<close> returns the empty list, but \<open>getAnalyticsSummary\<close> returns no
  summary: \<open>getRawPodsForAnalytics\<close> retries with \<open>getPods\<close> inside its catch block,
  unguarded, and that call's error leaves the service layer.
\<close>

theorem summary_rejects_when_upstreams_fail:
  "fst (getAllPNodes (cold_world all_down)) = []
   \<and> getAnalyticsSummary (cold_world all_down) = Inl RpcError"
proof
  show "fst (getAllPNodes (cold_world all_down)) = []"
    by (rule getAllPNodes_all_fail[where ?e0.0 = RpcError])
       (simp_all add: cold_world_def all_down_def no_redis_def empty_tiers_def
          RedisCacheService_get_def getFromRedis_def cacheService_get_def)
  show "getAnalyticsSummary (cold_world all_down) = Inl RpcError"
    by (rule getAnalyticsSummary_rejects[where ?e0.0 = RpcError])
       (simp_all add: cold_world_def all_down_def no_redis_def empty_tiers_def
          RedisCacheService_get_def getFromRedis_def cacheService_get_def)
qed

section \<open>The re-entrancy guard of the stats-enrichment job\<close>

lemma some_in_flight_iff: "some_in_flight s \<longleftrightarrow> (\<exists>j. in_flight s j)"
  by (simp add: some_in_flight_def in_flight_def list_ex_length)

lemma job_inv_init: "job_inv job_init"
  by (simp add: job_inv_def job_init_def in_flight_def)

lemma in_flight_finish:
  "in_flight (finish s j) k \<longleftrightarrow> in_flight s k \<and> k \<noteq> j"
  by (cases "k = j") (auto simp: in_flight_def finish_def)

lemma in_flight_startBatch:
  "in_flight (startBatch s j i ns) k \<longleftrightarrow> in_flight s k \<or> (k = j \<and> j < length (invocations s))"
  by (cases "k = j") (auto simp: in_flight_def startBatch_def)

lemma in_flight_delay:
  "in_flight (s\<lparr> invocations := (invocations s)[j := AwaitingDelay i ns] \<rparr>) k
     \<longleftrightarrow> in_flight s k \<or> (k = j \<and> j < length (invocations s))"
  by (cases "k = j") (auto simp: in_flight_def)

lemma in_flight_invoke:
  "in_flight (s\<lparr> isRunning := True, invocations := invocations s @ [AwaitingNodes] \<rparr>) k
     \<longleftrightarrow> in_flight s k \<or> k = length (invocations s)"
  by (auto simp: in_flight_def nth_append)

lemma at_await_in_flight:
  "at_await s j = Some t \<Longrightarrow> t \<noteq> Finished \<Longrightarrow> in_flight s j"
  by (auto simp: at_await_def in_flight_def split: if_splits)

lemma at_await_length: "at_await s j = Some t \<Longrightarrow> j < length (invocations s)"
  by (auto simp: at_await_def split: if_splits)

lemma job_inv_finish:
  assumes "job_inv s" and "in_flight s j"
  shows "job_inv (finish s j)"
proof -
  have "\<not> in_flight (finish s j) k" for k
    using assms by (auto simp: in_flight_finish job_inv_def)
  moreover have "\<not> isRunning (finish s j)" by (simp add: finish_def)
  ultimately show ?thesis by (simp add: job_inv_def)
qed

lemma job_inv_startBatch:
  assumes "job_inv s" and "in_flight s j"
  shows "job_inv (startBatch s j i ns)"
proof -
  have l: "j < length (invocations s)" using assms(2) by (simp add: in_flight_def)
  have "in_flight (startBatch s j i ns) k \<longleftrightarrow> in_flight s k" for k
    using assms(2) l by (auto simp: in_flight_startBatch)
  moreover have "isRunning (startBatch s j i ns) = isRunning s" by (simp add: startBatch_def)
  ultimately show ?thesis using assms(1) by (simp add: job_inv_def)
qed

lemma job_inv_delay:
  assumes "job_inv s" and "in_flight s j"
  shows "job_inv (s\<lparr> invocations := (invocations s)[j := AwaitingDelay i ns] \<rparr>)"
proof -
  have l: "j < length (invocations s)" using assms(2) by (simp add: in_flight_def)
  have "in_flight (s\<lparr> invocations := (invocations s)[j := AwaitingDelay i ns] \<rparr>) k \<longleftrightarrow> in_flight s k" for k
    using assms(2) l by (auto simp: in_flight_delay)
  then show ?thesis using assms(1) by (simp add: job_inv_def)
qed

lemma job_inv_invoke:
  assumes "job_inv s" and "\<not> isRunning s"
  shows "job_inv (s\<lparr> isRunning := True, invocations := invocations s @ [AwaitingNodes] \<rparr>)"
proof -
  have none: "\<not> in_flight s k" for k using assms by (auto simp: job_inv_def)
  have "in_flight (s\<lparr> isRunning := True, invocations := invocations s @ [AwaitingNodes] \<rparr>) k
          \<longleftrightarrow> k = length (invocations s)" for k
    using none by (simp add: in_flight_invoke)
  then show ?thesis by (simp add: job_inv_def)
qed

lemma job_inv_step:
  assumes "job_inv s"
  shows "job_inv (step s e)"
proof (cases e)
  case Invoke
  then show ?thesis using assms job_inv_invoke by simp
next
  case (NodesResolved j nodes)
  show ?thesis
  proof (cases "at_await s j = Some AwaitingNodes")
    case True
    then have "in_flight s j" by (rule at_await_in_flight) simp
    then show ?thesis
      using True NodesResolved assms job_inv_finish job_inv_startBatch by (simp add: Let_def)
  next
    case False
    then show ?thesis using NodesResolved assms
      by (auto split: option.splits invocation.splits)
  qed
next
  case (NodesRejected j)
  show ?thesis
  proof (cases "at_await s j = Some AwaitingNodes")
    case True
    then have "in_flight s j" by (rule at_await_in_flight) simp
    then show ?thesis using True NodesRejected assms job_inv_finish by simp
  next
    case False
    then show ?thesis using NodesRejected assms
      by (auto split: option.splits invocation.splits)
  qed
next
  case (BatchSettled j)
  show ?thesis
  proof (cases "at_await s j")
    case None
    then show ?thesis using BatchSettled assms by simp
  next
    case (Some t)
    show ?thesis
    proof (cases t)
      case (AwaitingBatch i ns)
      with Some have "in_flight s j" by (auto intro: at_await_in_flight)
      then show ?thesis
        using Some AwaitingBatch BatchSettled assms job_inv_finish job_inv_delay by simp
    qed (use Some BatchSettled assms in simp_all)
  qed
next
  case (DelayElapsed j)
  show ?thesis
  proof (cases "at_await s j")
    case None
    then show ?thesis using DelayElapsed assms by simp
  next
    case (Some t)
    show ?thesis
    proof (cases t)
      case (AwaitingDelay i ns)
      with Some have "in_flight s j" by (auto intro: at_await_in_flight)
      then show ?thesis
        using Some AwaitingDelay DelayElapsed assms job_inv_startBatch by simp
    qed (use Some DelayElapsed assms in simp_all)
  qed
qed

lemma job_inv_run: "job_inv (run evs)"
  unfolding run_def
  by (induction evs rule: rev_induct) (simp_all add: job_inv_init job_inv_step)

text \<open>
  Claim C9. After any sequence of calls and promise settlements, at most one
  invocation of \<open>preFetchAllNodeStats\<close> is in flight, and \<open>isRunning\<close> is set exactly
  when one is. While the flag is set a new call changes nothing: no invocation is
  added and no stats lookup is started. Whenever an invocation in flight ends, on the
  early return, on the normal end or on an error, the flag is clear afterwards, so
  that the next call starts a run.
\<close>

theorem no_overlapping_runs:
  "(\<forall>j k. in_flight (run evs) j \<and> in_flight (run evs) k \<longrightarrow> j = k)
   \<and> (isRunning (run evs) \<longleftrightarrow> some_in_flight (run evs))
   \<and> (isRunning (run evs) \<longrightarrow> step (run evs) Invoke = run evs)
   \<and> (\<not> isRunning (run evs) \<longrightarrow>
         isRunning (step (run evs) Invoke)
       \<and> in_flight (step (run evs) Invoke) (length (invocations (run evs)))
       \<and> lookups (step (run evs) Invoke) = lookups (run evs))
   \<and> (\<forall>e j. in_flight (run evs) j \<and> \<not> in_flight (step (run evs) e) j \<longrightarrow>
         \<not> isRunning (step (run evs) e))"
proof -
  have i: "job_inv (run evs)" by (rule job_inv_run)
  have i': "job_inv (step (run evs) e)" for e using i by (rule job_inv_step)
  have a: "\<forall>j k. in_flight (run evs) j \<and> in_flight (run evs) k \<longrightarrow> j = k"
    using i by (simp add: job_inv_def)
  have b: "isRunning (run evs) \<longleftrightarrow> some_in_flight (run evs)"
    using i by (simp add: job_inv_def some_in_flight_iff)
  have c: "isRunning (run evs) \<longrightarrow> step (run evs) Invoke = run evs" by simp
  have d: "\<not> isRunning (run evs) \<longrightarrow>
         isRunning (step (run evs) Invoke)
       \<and> in_flight (step (run evs) Invoke) (length (invocations (run evs)))
       \<and> lookups (step (run evs) Invoke) = lookups (run evs)"
    by (simp add: in_flight_def)
  have e: "\<not> isRunning (step (run evs) e)"
    if "in_flight (run evs) j" "\<not> in_flight (step (run evs) e) j" for e j
  proof (rule ccontr)
    assume "\<not> \<not> isRunning (step (run evs) e)"
    then obtain k where k: "in_flight (step (run evs) e) k"
      using i'[of e] by (auto simp: job_inv_def)
    have mono: "in_flight (step (run evs) e) m \<Longrightarrow> \<not> in_flight (run evs) m \<Longrightarrow> \<not> isRunning (run evs)" for m
      by (cases e)
         (auto simp: in_flight_def finish_def startBatch_def nth_list_update nth_append Let_def at_await_def
               split: option.splits invocation.splits if_splits)
    have "isRunning (run evs)" using i that(1) by (auto simp: job_inv_def)
    with mono[of k] k have "in_flight (run evs) k" by blast
    with a that(1) have "k = j" by blast
    with k that(2) show False by simp
  qed
  from a b c d e show ?thesis by blast
qed


theorem no_overlapping_runs_witness:
  "isRunning (run [Invoke]) \<and> step (run [Invoke]) Invoke = run [Invoke]
   \<and> \<not> isRunning (run [Invoke, NodesRejected 0])
   \<and> isRunning (step (run [Invoke, NodesRejected 0]) Invoke)
   \<and> in_flight (run [Invoke]) 0 \<and> \<not> in_flight (step (run [Invoke]) (NodesRejected 0)) 0
   \<and> \<not> isRunning (step (run [Invoke]) (NodesRejected 0))"
proof -
  have r1: "isRunning (run [Invoke])" by (simp add: run_def job_init_def)
  have r2: "\<not> isRunning (run [Invoke, NodesRejected 0])"
    by (simp add: run_def job_init_def at_await_def finish_def)
  have f1: "in_flight (run [Invoke]) 0" by (simp add: run_def job_init_def in_flight_def)
  have f2: "\<not> in_flight (step (run [Invoke]) (NodesRejected 0)) 0"
    by (simp add: run_def job_init_def in_flight_def at_await_def finish_def)
  from no_overlapping_runs[of "[Invoke]"] r1
  have "step (run [Invoke]) Invoke = run [Invoke]" by blast
  moreover from no_overlapping_runs[of "[Invoke, NodesRejected 0]"] r2
  have "isRunning (step (run [Invoke, NodesRejected 0]) Invoke)" by blast
  moreover from no_overlapping_runs[of "[Invoke]"] f1 f2
  have "\<not> isRunning (step (run [Invoke]) (NodesRejected 0))" by blast
  ultimately show ?thesis using r1 r2 f1 f2 by blast
qed

end
